theory Spec2Isabelle
  imports Complex_Main "HOL-Library.Word"
begin

section \<open>The record store of server.js\<close>

text \<open>
  The program keeps its data in an SQLite database of five tables (server.js, lines 32 to 81).
  A row is a record with one field per column; a column declared \<^verbatim>\<open>NOT NULL\<close> (and the
  \<^verbatim>\<open>INTEGER PRIMARY KEY\<close>) holds a value, any other column holds \<open>None\<close> for SQL's NULL.
  A table is the list of its rows in the order they were inserted.
\<close>

subsection \<open>Text\<close>

text \<open>
  A JavaScript string is a sequence of 16-bit units (UTF-16): a character outside the Basic
  Multilingual Plane is two units, a high surrogate followed by a low one. A string that the
  program writes as a literal has ASCII characters only and is kept as an Isabelle string;
  \<open>lit\<close> gives its units.
\<close>

type_synonym utf16 = "16 word list"

definition lit :: "string \<Rightarrow> utf16" where
  "lit s = map of_char s"

definition is_high :: "16 word \<Rightarrow> bool" where
  "is_high u \<longleftrightarrow> 0xD800 \<le> u \<and> u \<le> 0xDBFF"

definition is_low :: "16 word \<Rightarrow> bool" where
  "is_low u \<longleftrightarrow> 0xDC00 \<le> u \<and> u \<le> 0xDFFF"

text \<open>
  The driver hands a string to SQLite as UTF-8, and a query gives it back as a string. A
  surrogate pair goes through unchanged; a surrogate that is not part of a pair becomes
  U+FFFD, the replacement character. \<open>store_text\<close> is the string that comes back.
\<close>

fun store_text :: "utf16 \<Rightarrow> utf16" where
  "store_text [] = []"
| "store_text [u] = (if is_high u \<or> is_low u then [0xFFFD] else [u])"
| "store_text (u # v # us) =
     (if is_high u \<and> is_low v then u # v # store_text us
      else if is_high u \<or> is_low u then 0xFFFD # store_text (v # us)
      else u # store_text (v # us))"

text \<open>
  The columns of students that a request's strings reach hold such a string. The other text
  columns are filled by statements of the program with its own literals only (the model has
  no statement that brings a request's string to them) and hold the literal.
\<close>

record department_row =
  d_id :: int
  d_name :: string

record faculty_row =
  f_id :: int
  f_first_name :: string
  f_last_name :: string
  f_email :: "string option"
  f_department_id :: "int option"
  f_avatar_url :: "string option"

record student_row =
  s_id :: int
  s_student_id :: utf16
  s_first_name :: utf16
  s_last_name :: utf16
  s_email :: "utf16 option"
  s_department_id :: "int option"
  s_status :: "string option"
  s_class_year :: "int option"
  s_avatar_initials :: "utf16 option"
  s_avatar_color :: "string option"

text \<open>\<^verbatim>\<open>isActive BOOLEAN DEFAULT 1\<close>: SQLite has no boolean type, the column holds a number or NULL.\<close>

record course_row =
  c_id :: int
  c_course_code :: string
  c_name :: string
  c_department_id :: "int option"
  c_isActive :: "int option"

record schedule_row =
  h_id :: int
  h_course_id :: "int option"
  h_faculty_id :: "int option"
  h_start_time :: "string option"
  h_location :: "string option"

record store =
  departments :: "department_row list"
  faculty :: "faculty_row list"
  students :: "student_row list"
  courses :: "course_row list"
  schedule :: "schedule_row list"

text \<open>A database file that has just been created: \<^verbatim>\<open>CREATE TABLE IF NOT EXISTS\<close> makes each table, empty.\<close>

definition new_store :: store where
  "new_store = \<lparr>departments = [], faculty = [], students = [], courses = [], schedule = []\<rparr>"

subsection \<open>Calls of the database driver\<close>

text \<open>
  A call of the driver can fail for a reason that is not in the data (the file cannot be read or
  written, the database is locked, ...). Every modelled call takes such a failure as an argument:
  \<open>Some msg\<close> makes the call fail with the message \<open>msg\<close> and leaves the store as it is.
  An error of the driver is the text of its \<^verbatim>\<open>message\<close>.
\<close>

type_synonym fault = "string option"
type_synonym db_error = string

text \<open>\<^verbatim>\<open>SELECT COUNT(*) AS count FROM ...\<close> with \<^verbatim>\<open>db.get\<close>: the callback gets an error or the row's count.\<close>

definition db_get_count :: "fault \<Rightarrow> 'a list \<Rightarrow> db_error + nat" where
  "db_get_count flt rows = (case flt of Some msg \<Rightarrow> Inl msg | None \<Rightarrow> Inr (length rows))"

text \<open>
  \<^verbatim>\<open>id INTEGER PRIMARY KEY AUTOINCREMENT\<close>: a new row gets an id one above the largest id the table
  has had, 1 in a table that never had a row. No statement of the program deletes a row or sets
  an id, so the largest id the table has had is the largest it holds.
\<close>

definition next_id :: "int list \<Rightarrow> int" where
  "next_id ids = fold max ids 0 + 1"

definition not_null_failed :: "string \<Rightarrow> db_error" where
  "not_null_failed col = ''SQLITE_CONSTRAINT: NOT NULL constraint failed: '' @ col"

definition unique_failed :: "string \<Rightarrow> db_error" where
  "unique_failed col = ''SQLITE_CONSTRAINT: UNIQUE constraint failed: '' @ col"

text \<open>The message of a failed \<^verbatim>\<open>CHECK\<close> names the expression that failed.\<close>

definition check_failed :: "string \<Rightarrow> db_error" where
  "check_failed expr = ''SQLITE_CONSTRAINT: CHECK constraint failed: '' @ expr"

text \<open>
  The values of one \<^verbatim>\<open>INSERT INTO students\<close> as SQLite gets them, a NULL being \<open>None\<close>. The two statements of
  the program that insert a student (lines 93 and 114) differ in the columns they name: the
  handler's leaves \<^verbatim>\<open>status\<close> to its default, the seed statement leaves \<^verbatim>\<open>email\<close> NULL.
\<close>

record student_values =
  v_student_id :: "utf16 option"
  v_first_name :: "utf16 option"
  v_last_name :: "utf16 option"
  v_email :: "utf16 option"
  v_department_id :: "int option"
  v_status :: "string option"
  v_class_year :: "int option"
  v_avatar_initials :: "utf16 option"
  v_avatar_color :: "string option"

definition status_values :: "string list" where
  "status_values = [''Admitted'', ''Pending'', ''Waitlist'']"

text \<open>
  The constraints of the students table (lines 49 to 61), in the order SQLite checks them:
  the \<^verbatim>\<open>NOT NULL\<close> columns, the \<^verbatim>\<open>CHECK\<close> on status (which a NULL passes), then
  \<^verbatim>\<open>UNIQUE\<close> on student\_id. Foreign keys are not enforced: the program never turns them on.
  A statement that fails changes nothing. On success the result is the new row's id
  (\<^verbatim>\<open>this.lastID\<close>) and the store with the row added.
\<close>

definition insert_student :: "fault \<Rightarrow> student_values \<Rightarrow> store \<Rightarrow> db_error + (int \<times> store)" where
  "insert_student flt v st =
     (case flt of Some msg \<Rightarrow> Inl msg | None \<Rightarrow>
      (case v_student_id v of None \<Rightarrow> Inl (not_null_failed ''students.student_id'') | Some sid \<Rightarrow>
      (case v_first_name v of None \<Rightarrow> Inl (not_null_failed ''students.first_name'') | Some fname \<Rightarrow>
      (case v_last_name v of None \<Rightarrow> Inl (not_null_failed ''students.last_name'') | Some lname \<Rightarrow>
       if \<not> (case v_status v of None \<Rightarrow> True | Some s \<Rightarrow> s \<in> set status_values)
         then Inl (check_failed ''status IN ('Admitted', 'Pending', 'Waitlist')'')
       else if sid \<in> set (map s_student_id (students st))
         then Inl (unique_failed ''students.student_id'')
       else
         (let new = next_id (map s_id (students st));
              row = \<lparr>s_id = new, s_student_id = sid, s_first_name = fname, s_last_name = lname,
                     s_email = v_email v, s_department_id = v_department_id v,
                     s_status = v_status v, s_class_year = v_class_year v,
                     s_avatar_initials = v_avatar_initials v,
                     s_avatar_color = v_avatar_color v\<rparr>
          in Inr (new, st\<lparr>students := students st @ [row]\<rparr>))))))"

section \<open>POST /api/students\<close>

text \<open>
  A field of the request body, as the handler's destructuring reads it (line 107):
  \<open>Undefined\<close> when the body has no such field, \<open>Null\<close> for a JSON null, else a value of the
  type the interface gives the field: a string, or for department\_id and class\_year a whole
  number (one that a JavaScript number holds exactly). A body whose field holds a value of
  another JSON type is not among the requests modelled.
\<close>

datatype 'a field = Undefined | Null | Val 'a

record student_request =
  student_id :: "utf16 field"
  first_name :: "utf16 field"
  last_name :: "utf16 field"
  email :: "utf16 field"
  department_id :: "int field"
  class_year :: "int field"

datatype js_error = TypeError

text \<open>
  \<^verbatim>\<open>x[0]\<close>: reading a property of undefined or null throws; a string gives its first unit, as
  a string of length one, or undefined when it is empty.
\<close>

fun index0 :: "utf16 field \<Rightarrow> js_error + utf16 field" where
  "index0 Undefined = Inl TypeError"
| "index0 Null = Inl TypeError"
| "index0 (Val s) = Inr (case s of [] \<Rightarrow> Undefined | c # _ \<Rightarrow> Val [c])"

text \<open>\<^verbatim>\<open>x || ''\<close>: \<open>x\<close> when it is truthy (a string that is not empty), else the empty string.\<close>

fun or_empty :: "utf16 field \<Rightarrow> utf16" where
  "or_empty (Val s) = (if s \<noteq> [] then s else [])"
| "or_empty _ = []"

text \<open>\<^verbatim>\<open>(first_name[0] || '') + (last_name[0] || '')\<close> (line 110), the left operand first.\<close>

definition initials :: "utf16 field \<Rightarrow> utf16 field \<Rightarrow> js_error + utf16" where
  "initials fname lname =
     (case index0 fname of Inl e \<Rightarrow> Inl e | Inr a \<Rightarrow>
      (case index0 lname of Inl e \<Rightarrow> Inl e | Inr b \<Rightarrow> Inr (or_empty a @ or_empty b)))"

definition colors :: "string list" where
  "colors = [''blue'', ''amber'', ''rose'', ''cyan'']"

text \<open>
  \<^verbatim>\<open>colors[Math.floor(Math.random() * colors.length)]\<close> (line 112), \<open>r\<close> being what
  \<^verbatim>\<open>Math.random()\<close> returned. The product with 4 is exact in floating point, so the real
  product is the program's. An index outside the array reads undefined.
\<close>

definition randomColor :: "real \<Rightarrow> string field" where
  "randomColor r =
     (let i = \<lfloor>r * real (length colors)\<rfloor>
      in if 0 \<le> i \<and> i < int (length colors) then Val (colors ! nat i) else Undefined)"

text \<open>
  The driver binds undefined and null as NULL. A string it binds reaches SQLite as
  \<open>store_text\<close> has it; the colours are ASCII, which that leaves as it is.
\<close>

fun bind :: "'a field \<Rightarrow> 'a option" where
  "bind (Val x) = Some x"
| "bind _ = None"

fun bind_text :: "utf16 field \<Rightarrow> utf16 option" where
  "bind_text (Val s) = Some (store_text s)"
| "bind_text _ = None"

datatype body =
    SavedBody string int
  | ErrorBody string
  | StatsBody nat nat nat string
  | DataBody "(student_row \<times> string option) list"

text \<open>What a handler does with a request: it throws, or it sends a status and a JSON body.\<close>

datatype response = Threw js_error | Json nat body

text \<open>
  The handler of lines 106 to 123. The statement names eight columns, so \<^verbatim>\<open>status\<close> takes its
  default \<^verbatim>\<open>'Pending'\<close>. \<open>r\<close> is the value of \<^verbatim>\<open>Math.random()\<close>, \<open>flt\<close> the failure of
  the driver's call, if any.
\<close>

definition post_api_students ::
  "real \<Rightarrow> fault \<Rightarrow> student_request \<Rightarrow> store \<Rightarrow> response \<times> store" where
  "post_api_students r flt req st =
     (case initials (first_name req) (last_name req) of
        Inl e \<Rightarrow> (Threw e, st)
      | Inr ini \<Rightarrow>
         (let params = \<lparr>v_student_id = bind_text (student_id req),
                         v_first_name = bind_text (first_name req),
                         v_last_name = bind_text (last_name req),
                         v_email = bind_text (email req),
                         v_department_id = bind (department_id req),
                         v_status = Some ''Pending'',
                         v_class_year = bind (class_year req),
                         v_avatar_initials = Some (store_text ini),
                         v_avatar_color = bind (randomColor r)\<rparr>
          in case insert_student flt params st of
               Inl err \<Rightarrow> (Json 500 (ErrorBody err), st)
             | Inr (new, st') \<Rightarrow> (Json 200 (SavedBody ''Student saved successfully!'' new), st')))"

section \<open>GET /api/stats\<close>

text \<open>
  \<^verbatim>\<open>Promise.all\<close> over promises that each settle once, with an error (\<open>Inl\<close>) or a value
  (\<open>Inr\<close>). The three queries run side by side, so the order in which they settle is not the
  program's to choose: \<open>ord\<close> lists the promises by index in the order they settle, and a promise
  that \<open>ord\<close> does not list settles after the listed ones, in index order. The result rejects
  with the error of the first promise that rejects; when none does, it is the list of the
  values in the order of the promises.
\<close>

fun first_rejected :: "nat list \<Rightarrow> ('e + 'a) list \<Rightarrow> 'e option" where
  "first_rejected [] ps = None"
| "first_rejected (i # is) ps =
     (if i < length ps
      then (case ps ! i of Inl e \<Rightarrow> Some e | Inr _ \<Rightarrow> first_rejected is ps)
      else first_rejected is ps)"

fun values_of :: "('e + 'a) list \<Rightarrow> 'e + 'a list" where
  "values_of [] = Inr []"
| "values_of (Inl e # ps) = Inl e"
| "values_of (Inr v # ps) = (case values_of ps of Inl e \<Rightarrow> Inl e | Inr vs \<Rightarrow> Inr (v # vs))"

definition promise_all :: "nat list \<Rightarrow> ('e + 'a) list \<Rightarrow> 'e + 'a list" where
  "promise_all ord ps =
     (case first_rejected (ord @ [0..<length ps]) ps of
        Some e \<Rightarrow> Inl e
      | None \<Rightarrow> values_of ps)"

text \<open>
  The handler of lines 139 to 147: \<open>f1\<close>, \<open>f2\<close>, \<open>f3\<close> are the failures of the three queries,
  if any. The three counts are of one state of the store.
\<close>

definition get_api_stats :: "nat list \<Rightarrow> fault \<Rightarrow> fault \<Rightarrow> fault \<Rightarrow> store \<Rightarrow> response" where
  "get_api_stats ord f1 f2 f3 st =
     (let p1 = db_get_count f1 (students st);
          p2 = db_get_count f2 (filter (\<lambda>c. c_isActive c = Some 1) (courses st));
          p3 = db_get_count f3 (faculty st)
      in case promise_all ord [p1, p2, p3] of
           Inl err \<Rightarrow> Json 500 (ErrorBody err)
         | Inr results \<Rightarrow>
             Json 200 (StatsBody (results ! 0) (results ! 1) (results ! 2) ''$2.4M''))"

section \<open>GET /api/enrollments/recent\<close>

text \<open>
  \<^verbatim>\<open>FROM students s LEFT JOIN departments d ON s.department_id = d.id\<close>: a row for every pair
  of a student and a department with that id, and for a student that has no such department
  (a NULL equals no id) one row with NULL for the department's columns. A row of the result is
  the student's row (\<^verbatim>\<open>s.*\<close>) with \<^verbatim>\<open>d.name AS department_name\<close>.
\<close>

definition left_join ::
  "student_row list \<Rightarrow> department_row list \<Rightarrow> (student_row \<times> string option) list" where
  "left_join ss ds =
     concat (map (\<lambda>s.
       case filter (\<lambda>d. s_department_id s = Some (d_id d)) ds of
         [] \<Rightarrow> [(s, None)]
       | ms \<Rightarrow> map (\<lambda>d. (s, Some (d_name d))) ms) ss)"

text \<open>\<^verbatim>\<open>ORDER BY s.id DESC LIMIT 5\<close>, and the handler of lines 150 to 156.\<close>

definition recent_rows :: "store \<Rightarrow> (student_row \<times> string option) list" where
  "recent_rows st =
     take 5 (sort_key (\<lambda>row. - s_id (fst row)) (left_join (students st) (departments st)))"

definition get_api_enrollments_recent :: "fault \<Rightarrow> store \<Rightarrow> response" where
  "get_api_enrollments_recent flt st =
     (case flt of
        Some msg \<Rightarrow> Json 500 (ErrorBody msg)
      | None \<Rightarrow> Json 200 (DataBody (recent_rows st)))"

section \<open>Start of the process\<close>

text \<open>The multi-row \<^verbatim>\<open>INSERT INTO departments (name) VALUES ...\<close>: the rows get ids in turn.\<close>

fun add_departments :: "string list \<Rightarrow> department_row list \<Rightarrow> department_row list" where
  "add_departments [] rows = rows"
| "add_departments (n # ns) rows =
     add_departments ns (rows @ [\<lparr>d_id = next_id (map d_id rows), d_name = n\<rparr>])"

definition insert_departments :: "fault \<Rightarrow> string list \<Rightarrow> store \<Rightarrow> db_error + store" where
  "insert_departments flt names st =
     (case flt of
        Some msg \<Rightarrow> Inl msg
      | None \<Rightarrow> Inr (st\<lparr>departments := add_departments names (departments st)\<rparr>))"

text \<open>
  \<^verbatim>\<open>INSERT INTO faculty (first_name, last_name, department_id, avatar_url) VALUES ...\<close>:
  a row is given as these four values; email stays NULL. The faculty table has no constraint
  that such a row can break.
\<close>

fun add_faculty ::
  "(string \<times> string \<times> int \<times> string) list \<Rightarrow> faculty_row list \<Rightarrow> faculty_row list" where
  "add_faculty [] rows = rows"
| "add_faculty ((fname, lname, dep, url) # vs) rows =
     add_faculty vs (rows @ [\<lparr>f_id = next_id (map f_id rows), f_first_name = fname,
       f_last_name = lname, f_email = None, f_department_id = Some dep,
       f_avatar_url = Some url\<rparr>])"

definition insert_faculty ::
  "fault \<Rightarrow> (string \<times> string \<times> int \<times> string) list \<Rightarrow> store \<Rightarrow> db_error + store" where
  "insert_faculty flt vs st =
     (case flt of
        Some msg \<Rightarrow> Inl msg
      | None \<Rightarrow> Inr (st\<lparr>faculty := add_faculty vs (faculty st)\<rparr>))"

text \<open>
  \<^verbatim>\<open>INSERT INTO courses (course_code, name, department_id) VALUES (...)\<close>: isActive takes its
  default 1; \<^verbatim>\<open>course_code\<close> is \<^verbatim>\<open>UNIQUE\<close>.
\<close>

definition insert_course :: "fault \<Rightarrow> string \<Rightarrow> string \<Rightarrow> int \<Rightarrow> store \<Rightarrow> db_error + store" where
  "insert_course flt code name dep st =
     (case flt of
        Some msg \<Rightarrow> Inl msg
      | None \<Rightarrow>
         if code \<in> set (map c_course_code (courses st))
         then Inl (unique_failed ''courses.course_code'')
         else Inr (st\<lparr>courses := courses st @
                [\<lparr>c_id = next_id (map c_id (courses st)), c_course_code = code, c_name = name,
                  c_department_id = Some dep, c_isActive = Some 1\<rparr>]\<rparr>))"

text \<open>The failure of the \<open>k\<close>-th statement of a sequence, none when the list gives none.\<close>

definition fault_at :: "fault list \<Rightarrow> nat \<Rightarrow> fault" where
  "fault_at flts k = (if k < length flts then flts ! k else None)"

text \<open>The first failure in a sequence of statements that run one after the other.\<close>

fun first_fault :: "fault list \<Rightarrow> fault" where
  "first_fault [] = None"
| "first_fault (Some msg # flts) = Some msg"
| "first_fault (None # flts) = first_fault flts"

definition seed_student :: student_values where
  "seed_student = \<lparr>v_student_id = Some (lit ''#ST-2024-001''), v_first_name = Some (lit ''John''),
     v_last_name = Some (lit ''Doe''), v_email = None, v_department_id = Some 1,
     v_status = Some ''Admitted'', v_class_year = Some 2026,
     v_avatar_initials = Some (lit ''JD''), v_avatar_color = Some ''blue''\<rparr>"

text \<open>
  One statement run on the store reached so far: a statement that fails adds its error to
  the errors and leaves the store, one that succeeds changes the store.
\<close>

definition run_statement ::
  "(store \<Rightarrow> db_error + store) \<Rightarrow> db_error list \<times> store \<Rightarrow> db_error list \<times> store" where
  "run_statement stmt acc =
     (case stmt (snd acc) of
        Inl e \<Rightarrow> (fst acc @ [e], snd acc)
      | Inr st' \<Rightarrow> (fst acc, st'))"

text \<open>
  The four seed statements (lines 87 to 96). The callback of the count query issues them
  after \<^verbatim>\<open>db.serialize\<close> has returned, so they are independent of each other: one that fails
  does not keep the others from running. Each reads and writes its own table only (foreign
  keys are not enforced), so the store they leave is the same in whatever order they run;
  here it is the order of the source. The result is that store with the errors of the
  statements that failed. None of them has a callback.
\<close>

definition seed_data :: "fault list \<Rightarrow> store \<Rightarrow> db_error list \<times> store" where
  "seed_data flts st =
     run_statement (insert_course (fault_at flts 3) ''CS-101'' ''Data Structures'' 1)
    (run_statement (\<lambda>s. map_sum id snd (insert_student (fault_at flts 2) seed_student s))
    (run_statement (insert_faculty (fault_at flts 1)
        [(''Alan'', ''Turing'', 1, ''https://ui-avatars.com/api/?name=Prof+A&background=random''),
         (''Grace'', ''Hopper'', 1, ''https://ui-avatars.com/api/?name=Prof+G&background=random'')])
    (run_statement (insert_departments (fault_at flts 0)
        [''Computer Science'', ''Architecture'', ''Engineering'', ''Business''])
       ([], st))))"

text \<open>
  The process: whether it runs, whether its HTTP server listens, the lines the database
  callbacks have written to the console, the errors of the statements that failed with
  nothing to handle them, and the content of the database file. (The line that the callback
  of \<^verbatim>\<open>app.listen\<close> writes is left out: when it comes, among the other lines, is a matter of
  timing.)
\<close>

record process =
  alive :: bool
  listening :: bool
  console :: "string list"
  unhandled :: "db_error list"
  database :: store

definition start :: "store \<Rightarrow> process" where
  "start st = \<lparr>alive = True, listening = False, console = [], unhandled = [], database = st\<rparr>"

text \<open>\<^verbatim>\<open>app.listen(PORT, ...)\<close> (line 168), which the script runs whatever the database does.\<close>

definition app_listen :: "process \<Rightarrow> process" where
  "app_listen p = p\<lparr>listening := True\<rparr>"

text \<open>
  A statement that has no callback fails. No code of the program gets the error: the driver
  raises it as an \<^verbatim>\<open>error\<close> event on the statement, the program has no listener for it, and
  the runtime throws an \<^verbatim>\<open>error\<close> event that has no listener as an uncaught exception. The
  program has no handler for that either: the process ends, and its server with it. When
  several statements have failed, which of their errors is raised first is a matter of
  timing; \<open>errs\<close> holds them all.
\<close>

definition uncaught :: "db_error list \<Rightarrow> process \<Rightarrow> process" where
  "uncaught errs p = p\<lparr>alive := False, listening := False, unhandled := unhandled p @ errs\<rparr>"

text \<open>A request gets an answer from a process that runs and whose server listens.\<close>

definition answers :: "process \<Rightarrow> bool" where
  "answers p \<longleftrightarrow> alive p \<and> listening p"

text \<open>
  The body of the count query's callback when the count is 0 (lines 86 to 97): both lines
  are written at once, the second before any of the statements has run.
\<close>

definition seed :: "fault list \<Rightarrow> process \<Rightarrow> process" where
  "seed seeds p =
     (let (errs, st') = seed_data seeds (database p);
          p' = p\<lparr>console := console p @ [''Seeding Database...'', ''Database seeded successfully.''],
                 database := st'\<rparr>
      in if errs = [] then p' else uncaught errs p')"

text \<open>
  \<^verbatim>\<open>initializeDatabase\<close> (lines 29 to 101). \<open>creates\<close> gives the failures of the five
  \<^verbatim>\<open>CREATE TABLE IF NOT EXISTS\<close> statements, \<open>cq\<close> that of the count query, \<open>seeds\<close> those of
  the seed statements. A \<^verbatim>\<open>CREATE TABLE IF NOT EXISTS\<close> that succeeds leaves the store as it is
  (a table it had to make is empty). These statements and the count query are serialized and
  the statements have no callback, so the first that fails ends the process before the ones
  after it run. The count query has a callback, which seeds when it gets a row whose count is
  0 and does nothing otherwise, also when it gets an error.
\<close>

definition initializeDatabase :: "fault list \<Rightarrow> fault \<Rightarrow> fault list \<Rightarrow> process \<Rightarrow> process" where
  "initializeDatabase creates cq seeds p =
     (case first_fault (take 5 creates) of
        Some msg \<Rightarrow> uncaught [msg] p
      | None \<Rightarrow>
         (case db_get_count cq (departments (database p)) of
            Inl err \<Rightarrow> p
          | Inr count \<Rightarrow> if count = 0 then seed seeds p else p))"

text \<open>The callback of \<^verbatim>\<open>new sqlite3.Database\<close> (lines 19 to 26); \<open>err\<close> is the failure to open.\<close>

definition open_callback :: "fault \<Rightarrow> fault list \<Rightarrow> fault \<Rightarrow> fault list \<Rightarrow> process \<Rightarrow> process" where
  "open_callback err creates cq seeds p =
     (case err of
        Some msg \<Rightarrow> p\<lparr>console := console p @ [''Error opening database '' @ msg]\<rparr>
      | None \<Rightarrow>
          initializeDatabase creates cq seeds
            (p\<lparr>console := console p @ [''Connected to the SQLite database.'']\<rparr>))"

text \<open>
  The script from its start on the database file \<open>st\<close>: the server is set to listen as the
  script is loaded, the callback of the opening runs after that.
\<close>

definition server_js :: "fault \<Rightarrow> fault list \<Rightarrow> fault \<Rightarrow> fault list \<Rightarrow> store \<Rightarrow> process" where
  "server_js err creates cq seeds st = open_callback err creates cq seeds (app_listen (start st))"

section \<open>The specification's words\<close>

text \<open>
  The starter rows as the specification lists them, for comparison with what the seed
  statements do: \<open>st'\<close> is \<open>st\<close> with four departments (Computer Science first), two
  faculty rows, one student row and one course row added at the end of their tables, each of
  the last three kinds referring to department 1, and nothing else changed.
\<close>

definition starter_rows_added :: "store \<Rightarrow> store \<Rightarrow> bool" where
  "starter_rows_added st st' \<longleftrightarrow>
     take (length (departments st)) (departments st') = departments st
   \<and> map d_name (drop (length (departments st)) (departments st'))
       = [''Computer Science'', ''Architecture'', ''Engineering'', ''Business'']
   \<and> take (length (faculty st)) (faculty st') = faculty st
   \<and> map (\<lambda>f. (f_first_name f, f_last_name f, f_department_id f))
        (drop (length (faculty st)) (faculty st'))
       = [(''Alan'', ''Turing'', Some 1), (''Grace'', ''Hopper'', Some 1)]
   \<and> take (length (students st)) (students st') = students st
   \<and> map (\<lambda>s. (s_student_id s, s_first_name s, s_last_name s, s_department_id s))
        (drop (length (students st)) (students st'))
       = [(lit ''#ST-2024-001'', lit ''John'', lit ''Doe'', Some 1)]
   \<and> take (length (courses st)) (courses st') = courses st
   \<and> map (\<lambda>c. (c_course_code c, c_name c, c_department_id c))
        (drop (length (courses st)) (courses st'))
       = [(''CS-101'', ''Data Structures'', Some 1)]
   \<and> schedule st' = schedule st"

text \<open>
  The first character of a string, as a reader of the specification counts characters: the
  two units of a surrogate pair when the string begins with one, else its first unit; none
  of an empty string.
\<close>

fun first_character :: "utf16 \<Rightarrow> utf16" where
  "first_character [] = []"
| "first_character [u] = [u]"
| "first_character (u # v # us) = (if is_high u \<and> is_low v then [u, v] else [u])"

text \<open>A string that is empty or begins with a character of the Basic Multilingual Plane.\<close>

fun bmp_start :: "utf16 \<Rightarrow> bool" where
  "bmp_start [] = True"
| "bmp_start (u # us) = (\<not> is_high u \<and> \<not> is_low u)"

section \<open>Stores and requests to run the program on\<close>

text \<open>The store that seeding leaves in a new database.\<close>

definition seeded_store :: store where
  "seeded_store = \<lparr>
     departments = [\<lparr>d_id = 1, d_name = ''Computer Science''\<rparr>,
                    \<lparr>d_id = 2, d_name = ''Architecture''\<rparr>,
                    \<lparr>d_id = 3, d_name = ''Engineering''\<rparr>,
                    \<lparr>d_id = 4, d_name = ''Business''\<rparr>],
     faculty = [\<lparr>f_id = 1, f_first_name = ''Alan'', f_last_name = ''Turing'', f_email = None,
                  f_department_id = Some 1,
                  f_avatar_url = Some ''https://ui-avatars.com/api/?name=Prof+A&background=random''\<rparr>,
                \<lparr>f_id = 2, f_first_name = ''Grace'', f_last_name = ''Hopper'', f_email = None,
                  f_department_id = Some 1,
                  f_avatar_url = Some ''https://ui-avatars.com/api/?name=Prof+G&background=random''\<rparr>],
     students = [\<lparr>s_id = 1, s_student_id = lit ''#ST-2024-001'', s_first_name = lit ''John'',
                   s_last_name = lit ''Doe'', s_email = None, s_department_id = Some 1,
                   s_status = Some ''Admitted'', s_class_year = Some 2026,
                   s_avatar_initials = Some (lit ''JD''), s_avatar_color = Some ''blue''\<rparr>],
     courses = [\<lparr>c_id = 1, c_course_code = ''CS-101'', c_name = ''Data Structures'',
                  c_department_id = Some 1, c_isActive = Some 1\<rparr>],
     schedule = []\<rparr>"

text \<open>A request for a student whose student\_id is that of the seeded student.\<close>

definition john_request :: student_request where
  "john_request = \<lparr>student_id = Val (lit ''#ST-2024-001''), first_name = Val (lit ''John''),
     last_name = Val (lit ''Doe''), email = Undefined, department_id = Val 1,
     class_year = Val 2026\<rparr>"

text \<open>The same request without its \<^verbatim>\<open>first_name\<close>.\<close>

definition nameless_request :: student_request where
  "nameless_request = john_request\<lparr>first_name := Undefined\<rparr>"

text \<open>A request whose body has no \<^verbatim>\<open>first_name\<close>.\<close>

definition anonymous_request :: student_request where
  "anonymous_request = \<lparr>student_id = Val (lit ''#ST-2025-007''), first_name = Undefined,
     last_name = Val (lit ''Lovelace''), email = Undefined, department_id = Null,
     class_year = Val 2027\<rparr>"

text \<open>
  A request whose \<^verbatim>\<open>first_name\<close> begins with U+1F600, a character outside the Basic
  Multilingual Plane: the units D83D and DE00, then \<^verbatim>\<open>mile\<close>.
\<close>

definition smile_request :: student_request where
  "smile_request = \<lparr>student_id = Val (lit ''#ST-2025-008''),
     first_name = Val (0xD83D # 0xDE00 # lit ''mile''), last_name = Val (lit ''Doe''),
     email = Undefined, department_id = Null, class_year = Val 2027\<rparr>"

text \<open>Six more students, none with a department, created one after the other in the seeded store.\<close>

definition ada_request :: "string \<Rightarrow> student_request" where
  "ada_request sid = \<lparr>student_id = Val (lit sid), first_name = Val (lit ''Ada''),
     last_name = Val (lit ''Lovelace''), email = Undefined, department_id = Null,
     class_year = Val 2027\<rparr>"

definition enrol :: "store \<Rightarrow> string \<Rightarrow> store" where
  "enrol st sid = snd (post_api_students (1/2) None (ada_request sid) st)"

definition busy_store :: store where
  "busy_store = foldl enrol seeded_store [''S2'', ''S3'', ''S4'', ''S5'', ''S6'', ''S7'']"

section \<open>Properties of student creation\<close>

lemma fold_max_bounds: "(a::int) \<le> fold max xs a \<and> (\<forall>x \<in> set xs. x \<le> fold max xs a)"
proof (induction xs arbitrary: a)
  case Nil
  show ?case by simp
next
  case (Cons y ys)
  have "max y a \<le> fold max ys (max y a)" using Cons.IH by blast
  moreover have "\<forall>x \<in> set ys. x \<le> fold max ys (max y a)" using Cons.IH by blast
  ultimately show ?case by auto
qed

lemma next_id_greater: "x \<in> set ids \<Longrightarrow> x < next_id ids"
  using fold_max_bounds [of 0 ids] by (auto simp: next_id_def)

lemma initials_strings: "initials (Val f) (Val l) = Inr (take 1 f @ take 1 l)"
  by (cases f; cases l) (simp_all add: initials_def)

lemma initials_absent:
  "fname = Undefined \<or> lname = Undefined \<Longrightarrow> initials fname lname = Inl TypeError"
  by (cases fname; cases lname) (auto simp: initials_def split: sum.splits)

lemma store_text_first_units:
  assumes "bmp_start f" and "bmp_start l"
  shows "store_text (take 1 f @ take 1 l) = take 1 f @ take 1 l"
  using assms by (cases f; cases l) simp_all

lemma first_character_bmp: "bmp_start f \<Longrightarrow> first_character f = take 1 f"
  by (cases f rule: first_character.cases) simp_all

lemma insert_student_Inr:
  assumes "insert_student flt v st = Inr (new, st')"
  shows "\<exists>row. st' = st\<lparr>students := students st @ [row]\<rparr> \<and> s_id row = new
           \<and> new = next_id (map s_id (students st))
           \<and> v_student_id v = Some (s_student_id row)
           \<and> s_student_id row \<notin> set (map s_student_id (students st))
           \<and> s_department_id row = v_department_id v
           \<and> s_avatar_initials row = v_avatar_initials v
           \<and> s_avatar_color row = v_avatar_color v"
  using assms
  by (auto simp: insert_student_def Let_def split: option.splits if_splits)

lemma randomColor_palette:
  assumes "0 \<le> r" and "r < 1"
  shows "\<exists>c \<in> set colors. randomColor r = Val c"
proof -
  have n: "length colors = 4" by (simp add: colors_def)
  have lo: "0 \<le> \<lfloor>r * 4\<rfloor>" using assms by simp
  have "r * 4 < 4" using assms by simp
  then have hi: "\<lfloor>r * 4\<rfloor> < 4" by (simp add: floor_less_iff)
  have "nat \<lfloor>r * 4\<rfloor> < length colors" using lo hi unfolding n by linarith
  then have "colors ! nat \<lfloor>r * 4\<rfloor> \<in> set colors" by (rule nth_mem)
  moreover have "randomColor r = Val (colors ! nat \<lfloor>r * 4\<rfloor>)"
    using lo hi by (simp add: randomColor_def n)
  ultimately show ?thesis by blast
qed

lemma insert_student_duplicate:
  assumes "sid \<in> set (map s_student_id (students st))" and "v_student_id v = Some sid"
  shows "\<exists>err. insert_student flt v st = Inl err
           \<and> (flt = None \<and> v_first_name v \<noteq> None \<and> v_last_name v \<noteq> None
                \<and> v_status v = Some ''Pending''
              \<longrightarrow> err = unique_failed ''students.student_id'')"
  using assms
  by (auto simp: insert_student_def status_values_def split: option.splits)

text \<open>
  What a creation stores as initials. When \<^verbatim>\<open>first_name\<close> and \<^verbatim>\<open>last_name\<close> of the request are
  strings, deriving the initials throws nothing and gives the first unit of the first name
  followed by the first unit of the last name, an empty name giving none. A creation that
  succeeds adds one row, with the id it reports, whose \<^verbatim>\<open>avatar_initials\<close> is that string as
  the store keeps it. When each name is empty or begins with a character of the Basic
  Multilingual Plane, that is the first character of the first name followed by the first
  character of the last.
\<close>

lemma avatar_initials_stored:
  assumes "first_name req = Val f" and "last_name req = Val l"
    and "post_api_students r flt req st = (Json 200 (SavedBody msg new), st')"
  shows "initials (first_name req) (last_name req) = Inr (take 1 f @ take 1 l)
         \<and> (\<exists>row. students st' = students st @ [row] \<and> s_id row = new
               \<and> s_avatar_initials row = Some (store_text (take 1 f @ take 1 l))
               \<and> (bmp_start f \<and> bmp_start l \<longrightarrow>
                    s_avatar_initials row = Some (first_character f @ first_character l)))"
proof -
  have i: "initials (first_name req) (last_name req) = Inr (take 1 f @ take 1 l)"
    using assms(1,2) by (simp add: initials_strings)
  from assms(3) i obtain v where
    ins: "insert_student flt v st = Inr (new, st')"
    and v: "v_avatar_initials v = Some (store_text (take 1 f @ take 1 l))"
    by (auto simp: post_api_students_def Let_def split: sum.splits prod.splits)
  from insert_student_Inr [OF ins] v obtain row where
    row: "students st' = students st @ [row]" "s_id row = new"
      "s_avatar_initials row = Some (store_text (take 1 f @ take 1 l))"
    by auto
  have "s_avatar_initials row = Some (first_character f @ first_character l)"
    if "bmp_start f \<and> bmp_start l"
    using that row(3) store_text_first_units [of f l]
      first_character_bmp [of f] first_character_bmp [of l] by simp
  with i row show ?thesis by blast
qed

lemma avatar_initials_stored_example:
  "fst (post_api_students (1/2) None john_request new_store)
     = Json 200 (SavedBody ''Student saved successfully!'' 1)
   \<and> s_avatar_initials (last (students (snd (post_api_students (1/2) None john_request new_store))))
     = Some (lit ''JD'')
   \<and> first_character (lit ''John'') @ first_character (lit ''Doe'') = lit ''JD''"
proof -
  have e: "post_api_students (1/2) None john_request new_store =
     (Json 200 (SavedBody ''Student saved successfully!'' 1),
      snd (post_api_students (1/2) None john_request new_store))"
    by (simp add: post_api_students_def john_request_def new_store_def initials_def
        insert_student_def randomColor_def colors_def status_values_def next_id_def)
  have n: "first_name john_request = Val (lit ''John'')" "last_name john_request = Val (lit ''Doe'')"
    by (simp_all add: john_request_def)
  have b: "bmp_start (lit ''John'') \<and> bmp_start (lit ''Doe'')"
    by (simp add: lit_def is_high_def is_low_def)
  have c: "first_character (lit ''John'') @ first_character (lit ''Doe'') = lit ''JD''"
    by (simp add: lit_def is_high_def is_low_def)
  have s: "fst (post_api_students (1/2) None john_request new_store)
     = Json 200 (SavedBody ''Student saved successfully!'' 1)"
    using e by (metis fst_conv)
  from avatar_initials_stored [OF n e] b c obtain row where
    "students (snd (post_api_students (1/2) None john_request new_store)) = students new_store @ [row]"
    "s_avatar_initials row = Some (lit ''JD'')"
    by auto
  then have "s_avatar_initials (last (students (snd (post_api_students (1/2) None john_request new_store))))
     = Some (lit ''JD'')" by simp
  with s c show ?thesis by blast
qed

text \<open>
  C1. The stored initials are to be the first character of \<^verbatim>\<open>first_name\<close> followed by the first
  character of \<^verbatim>\<open>last_name\<close>. The handler takes the first unit of each name, which is its
  first character only when that character is of the Basic Multilingual Plane. For the first
  name U+1F600 \<^verbatim>\<open>mile\<close> and the last name \<^verbatim>\<open>Doe\<close> it takes the high surrogate D83D alone,
  which the store keeps as U+FFFD: the creation succeeds, and the initials stored are U+FFFD
  and D where the first characters are U+1F600 and D. (The first name itself is stored
  whole.)
\<close>

theorem avatar_initials_non_bmp:
  "first_name smile_request = Val (0xD83D # 0xDE00 # lit ''mile'')
   \<and> last_name smile_request = Val (lit ''Doe'')
   \<and> initials (first_name smile_request) (last_name smile_request) = Inr [0xD83D, 0x44]
   \<and> fst (post_api_students (1/2) None smile_request new_store)
       = Json 200 (SavedBody ''Student saved successfully!'' 1)
   \<and> s_avatar_initials (last (students (snd (post_api_students (1/2) None smile_request new_store))))
       = Some [0xFFFD, 0x44]
   \<and> first_character (0xD83D # 0xDE00 # lit ''mile'') @ first_character (lit ''Doe'')
       = [0xD83D, 0xDE00, 0x44]"
  by (simp add: post_api_students_def smile_request_def new_store_def initials_def
      insert_student_def randomColor_def colors_def status_values_def next_id_def
      lit_def is_high_def is_low_def)

text \<open>
  C2, as amended. When the store holds a student with the student\_id of the request, the
  creation leaves the store as it is, so the first student's row is still there, and never
  reports success. When the request's \<^verbatim>\<open>first_name\<close> and \<^verbatim>\<open>last_name\<close> are strings the handler
  gets as far as the insert, and the response is 500 with an \<^verbatim>\<open>error\<close> field: the message of
  the \<^verbatim>\<open>UNIQUE\<close> constraint on \<^verbatim>\<open>students.student_id\<close>, unless the driver's call failed for
  another reason first.
\<close>

theorem duplicate_student_id_rejected:
  assumes "row \<in> set (students st)" and "student_id req = Val sid"
    and "s_student_id row = store_text sid"
  shows "snd (post_api_students r flt req st) = st
         \<and> row \<in> set (students (snd (post_api_students r flt req st)))
         \<and> (\<forall>msg new. fst (post_api_students r flt req st) \<noteq> Json 200 (SavedBody msg new))
         \<and> (first_name req = Val f \<and> last_name req = Val l \<longrightarrow>
              (\<exists>err. post_api_students r flt req st = (Json 500 (ErrorBody err), st)
                     \<and> (flt = None \<longrightarrow> err = unique_failed ''students.student_id'')))"
proof -
  have dup: "store_text sid \<in> set (map s_student_id (students st))"
    using assms(1,3) by force
  have fail: "\<exists>err. insert_student flt v st = Inl err
           \<and> (flt = None \<and> v_first_name v \<noteq> None \<and> v_last_name v \<noteq> None
                \<and> v_status v = Some ''Pending''
              \<longrightarrow> err = unique_failed ''students.student_id'')"
    if "v_student_id v = Some (store_text sid)" for v
    using insert_student_duplicate [OF dup that] .
  have main: "snd (post_api_students r flt req st) = st
         \<and> (\<forall>msg new. fst (post_api_students r flt req st) \<noteq> Json 200 (SavedBody msg new))
         \<and> (first_name req = Val f \<and> last_name req = Val l \<longrightarrow>
              (\<exists>err. post_api_students r flt req st = (Json 500 (ErrorBody err), st)
                     \<and> (flt = None \<longrightarrow> err = unique_failed ''students.student_id'')))"
  proof (cases "initials (first_name req) (last_name req)")
    case (Inl e)
    then have "first_name req \<noteq> Val f \<or> last_name req \<noteq> Val l"
      by (auto simp: initials_strings)
    with Inl show ?thesis by (auto simp: post_api_students_def)
  next
    case (Inr ini)
    let ?v = "\<lparr>v_student_id = bind_text (student_id req),
                         v_first_name = bind_text (first_name req),
                         v_last_name = bind_text (last_name req),
                         v_email = bind_text (email req),
                         v_department_id = bind (department_id req),
                         v_status = Some ''Pending'',
                         v_class_year = bind (class_year req),
                         v_avatar_initials = Some (store_text ini),
                         v_avatar_color = bind (randomColor r)\<rparr>"
    have "v_student_id ?v = Some (store_text sid)" using assms(2) by simp
    from fail [OF this] obtain err where
      err: "insert_student flt ?v st = Inl err"
      and msg: "flt = None \<and> v_first_name ?v \<noteq> None \<and> v_last_name ?v \<noteq> None
                \<longrightarrow> err = unique_failed ''students.student_id''"
      by auto
    have p: "post_api_students r flt req st = (Json 500 (ErrorBody err), st)"
      using Inr err by (simp add: post_api_students_def)
    show ?thesis using p msg by auto
  qed
  then show ?thesis using assms(1) by simp
qed

theorem duplicate_student_id_rejected_witness:
  "post_api_students (1/2) None john_request seeded_store =
     (Json 500 (ErrorBody ''SQLITE_CONSTRAINT: UNIQUE constraint failed: students.student_id''),
      seeded_store)"
proof -
  have 1: "students seeded_store ! 0 \<in> set (students seeded_store)"
    by (simp add: seeded_store_def)
  have 2: "student_id john_request = Val (lit ''#ST-2024-001'')"
    by (simp add: john_request_def)
  have 3: "s_student_id (students seeded_store ! 0) = store_text (lit ''#ST-2024-001'')"
    by (simp add: seeded_store_def lit_def is_high_def is_low_def)
  have 4: "first_name john_request = Val (lit ''John'') \<and> last_name john_request = Val (lit ''Doe'')"
    by (simp add: john_request_def)
  from duplicate_student_id_rejected [OF 1 2 3, of "1/2" None "lit ''John''" "lit ''Doe''"] 4
  show ?thesis by (auto simp: unique_failed_def)
qed

text \<open>
  C2 as stated fails for a request that has the student\_id of a student in the store and no
  \<^verbatim>\<open>first_name\<close>: the handler throws before the insert, so the creation fails with no
  \<^verbatim>\<open>error\<close> body and without the store's uniqueness constraint having been asked.
\<close>

theorem duplicate_student_id_counterexample:
  "s_student_id (students seeded_store ! 0) = lit ''#ST-2024-001''
   \<and> student_id nameless_request = Val (lit ''#ST-2024-001'')
   \<and> post_api_students (1/2) None nameless_request seeded_store = (Threw TypeError, seeded_store)"
  by (simp add: seeded_store_def nameless_request_def john_request_def post_api_students_def
      initials_def)

text \<open>
  C8. Whatever \<^verbatim>\<open>Math.random()\<close> returns (a number from 0 up to, not including, 1), a creation
  that succeeds stores, in the row it adds, an \<^verbatim>\<open>avatar_color\<close> that is one of blue, amber,
  rose and cyan.
\<close>

theorem avatar_color_in_palette:
  assumes "0 \<le> r" and "r < 1"
    and "post_api_students r flt req st = (Json 200 (SavedBody msg new), st')"
  shows "\<exists>row c. students st' = students st @ [row] \<and> s_id row = new
           \<and> s_avatar_color row = Some c \<and> c \<in> {''blue'', ''amber'', ''rose'', ''cyan''}"
proof -
  from randomColor_palette [OF assms(1,2)] obtain c where
    c: "c \<in> set colors" "randomColor r = Val c" by blast
  from assms(3) c(2) obtain v where
    ins: "insert_student flt v st = Inr (new, st')"
    and v: "v_avatar_color v = Some c"
    by (auto simp: post_api_students_def Let_def split: sum.splits prod.splits)
  from insert_student_Inr [OF ins] v c(1) show ?thesis by (auto simp: colors_def)
qed

theorem avatar_color_in_palette_witness:
  "s_avatar_color (last (students (snd (post_api_students (7/8) None john_request new_store))))
     = Some ''cyan''"
proof -
  have e: "post_api_students (7/8) None john_request new_store =
     (Json 200 (SavedBody ''Student saved successfully!'' 1),
      snd (post_api_students (7/8) None john_request new_store))"
    by (simp add: post_api_students_def john_request_def new_store_def initials_def
        insert_student_def randomColor_def colors_def status_values_def next_id_def)
  have r: "(0::real) \<le> 7/8" "(7/8::real) < 1" by simp_all
  from avatar_color_in_palette [OF r e] obtain row c where
    "students (snd (post_api_students (7/8) None john_request new_store)) = students new_store @ [row]"
    "s_avatar_color row = Some c" by blast
  then show ?thesis
    by (auto simp: post_api_students_def john_request_def new_store_def initials_def
        insert_student_def randomColor_def colors_def status_values_def next_id_def)
qed

text \<open>
  C10. A request whose body has no \<^verbatim>\<open>first_name\<close> or no \<^verbatim>\<open>last_name\<close> makes the handler throw
  a TypeError while it derives the initials: the insert is not reached, the store is as it
  was, and the handler sends neither the success body nor an \<^verbatim>\<open>error\<close> body.
\<close>

theorem missing_name_throws:
  assumes "first_name req = Undefined \<or> last_name req = Undefined"
  shows "post_api_students r flt req st = (Threw TypeError, st)"
  using initials_absent [OF assms] by (simp add: post_api_students_def)

theorem missing_name_throws_witness:
  "post_api_students (1/2) None anonymous_request new_store = (Threw TypeError, new_store)"
  using missing_name_throws [of anonymous_request "1/2" None new_store]
  by (simp add: anonymous_request_def)

section \<open>Properties of the dashboard counters\<close>

lemma first_rejected_append:
  "first_rejected (xs @ ys) ps =
     (case first_rejected xs ps of Some e \<Rightarrow> Some e | None \<Rightarrow> first_rejected ys ps)"
  by (induction xs) (auto split: sum.splits)

lemma first_rejected_Some: "first_rejected js ps = Some e \<Longrightarrow> Inl e \<in> set ps"
  by (induction js) (auto split: if_splits sum.splits simp: in_set_conv_nth)

lemma first_rejected_None:
  "first_rejected js ps = None \<longleftrightarrow> (\<forall>i \<in> set js. i < length ps \<longrightarrow> (\<exists>v. ps ! i = Inr v))"
  by (induction js) (auto split: sum.splits)

lemma promise_all_rejects:
  assumes "Inl e \<in> set ps"
  shows "\<exists>e'. promise_all ord ps = Inl e' \<and> Inl e' \<in> set ps"
proof -
  from assms obtain i where i: "i < length ps" "ps ! i = Inl e"
    by (auto simp: in_set_conv_nth)
  then have "first_rejected [0..<length ps] ps \<noteq> None"
    by (auto simp: first_rejected_None intro!: bexI [of _ i])
  then have "first_rejected (ord @ [0..<length ps]) ps \<noteq> None"
    by (auto simp: first_rejected_append split: option.splits)
  then obtain e' where e': "first_rejected (ord @ [0..<length ps]) ps = Some e'" by auto
  then show ?thesis using first_rejected_Some [OF e'] by (simp add: promise_all_def)
qed

lemma promise_all_three:
  "promise_all ord [Inr a, Inr b, Inr c] = Inr [a, b, c]"
proof -
  have none: "first_rejected js [Inr a, Inr b, Inr c] = None" for js
    unfolding first_rejected_None by (auto simp: nth_Cons split: nat.splits)
  show ?thesis by (simp add: promise_all_def none)
qed

lemma get_api_stats_rejects:
  assumes "f1 \<noteq> None \<or> f2 \<noteq> None \<or> f3 \<noteq> None"
  shows "\<exists>err. get_api_stats ord f1 f2 f3 st = Json 500 (ErrorBody err)
           \<and> Some err \<in> {f1, f2, f3}"
proof -
  let ?ps = "[db_get_count f1 (students st),
          db_get_count f2 (filter (\<lambda>c. c_isActive c = Some 1) (courses st)),
          db_get_count f3 (faculty st)]"
  from assms have "\<exists>e. Inl e \<in> set ?ps"
    by (cases f1; cases f2; cases f3) (auto simp: db_get_count_def)
  then obtain e where "Inl e \<in> set ?ps" ..
  from promise_all_rejects [OF this, of ord] obtain e' where
    e': "promise_all ord ?ps = Inl e'" "Inl e' \<in> set ?ps" by blast
  from e'(2) have "Some e' \<in> {f1, f2, f3}"
    by (auto simp: db_get_count_def split: option.splits)
  with e'(1) show ?thesis by (simp add: get_api_stats_def Let_def)
qed

lemma get_api_stats_success:
  assumes "get_api_stats ord f1 f2 f3 st = Json 200 b"
  shows "f1 = None \<and> f2 = None \<and> f3 = None"
proof (rule ccontr)
  assume "\<not> (f1 = None \<and> f2 = None \<and> f3 = None)"
  then have "f1 \<noteq> None \<or> f2 \<noteq> None \<or> f3 \<noteq> None" by auto
  from get_api_stats_rejects [OF this, of ord st] assms show False by auto
qed

text \<open>
  C4. With no failing query the response is 200 with the three counts and the literal
  \<^verbatim>\<open>"$2.4M"\<close>; and whenever the response is a success, \<^verbatim>\<open>total_students\<close> is the number of
  rows of students, \<^verbatim>\<open>faculty_staff\<close> the number of rows of faculty, \<^verbatim>\<open>active_courses\<close> the
  number of rows of courses whose \<^verbatim>\<open>isActive\<close> is 1 (SQLite's true), and \<^verbatim>\<open>fee_collection\<close>
  that literal.
\<close>

theorem stats_counts:
  "get_api_stats ord None None None st =
     Json 200 (StatsBody (length (students st))
                 (length (filter (\<lambda>c. c_isActive c = Some 1) (courses st)))
                 (length (faculty st)) ''$2.4M'')
   \<and> (get_api_stats ord f1 f2 f3 st = Json 200 (StatsBody total_students active_courses faculty_staff fee_collection)
       \<longrightarrow> total_students = length (students st)
         \<and> active_courses = length (filter (\<lambda>c. c_isActive c = Some 1) (courses st))
         \<and> faculty_staff = length (faculty st)
         \<and> fee_collection = ''$2.4M'')"
proof -
  have ok: "get_api_stats ord None None None st =
     Json 200 (StatsBody (length (students st))
                 (length (filter (\<lambda>c. c_isActive c = Some 1) (courses st)))
                 (length (faculty st)) ''$2.4M'')"
    by (simp add: get_api_stats_def db_get_count_def promise_all_three)
  have "f1 = None \<and> f2 = None \<and> f3 = None"
    if "get_api_stats ord f1 f2 f3 st = Json 200 b" for b
    using that by (rule get_api_stats_success)
  with ok show ?thesis by auto
qed

theorem stats_counts_witness:
  "get_api_stats [1, 2, 0] None None None seeded_store = Json 200 (StatsBody 1 1 2 ''$2.4M'')"
  using stats_counts [of "[1, 2, 0]" seeded_store None None None 1 1 2 "''$2.4M''"]
  by (simp add: seeded_store_def)

text \<open>
  C5. When one of the three count queries fails, in whatever order the three settle, the
  response is 500 with an \<^verbatim>\<open>error\<close> field that is the message of a query that failed, not
  a body of counters; and a body of counters is sent only when all three queries succeeded.
\<close>

theorem stats_all_or_nothing:
  "(f1 \<noteq> None \<or> f2 \<noteq> None \<or> f3 \<noteq> None \<longrightarrow>
      (\<exists>err. get_api_stats ord f1 f2 f3 st = Json 500 (ErrorBody err)
             \<and> Some err \<in> {f1, f2, f3}))
   \<and> (get_api_stats ord f1 f2 f3 st
         = Json 200 (StatsBody total_students active_courses faculty_staff fee_collection)
       \<longrightarrow> f1 = None \<and> f2 = None \<and> f3 = None)"
  using get_api_stats_rejects [of f1 f2 f3 ord st]
    get_api_stats_success [of ord f1 f2 f3 st]
  by blast

theorem stats_all_or_nothing_witness:
  "get_api_stats [2, 0, 1] None (Some ''SQLITE_BUSY: database is locked'') None seeded_store
     = Json 500 (ErrorBody ''SQLITE_BUSY: database is locked'')
   \<and> get_api_stats [2, 0, 1] None None None seeded_store = Json 200 (StatsBody 1 1 2 ''$2.4M'')"
proof -
  have "get_api_stats [2, 0, 1] None None None seeded_store = Json 200 (StatsBody 1 1 2 ''$2.4M'')"
    by (simp add: get_api_stats_def db_get_count_def promise_all_three seeded_store_def)
  with stats_all_or_nothing [of None "Some ''SQLITE_BUSY: database is locked''" None
      "[2, 0, 1]" seeded_store]
    stats_all_or_nothing [of None None None "[2, 0, 1]" seeded_store 1 1 2 "''$2.4M''"]
  show ?thesis by auto
qed

section \<open>Properties of the recent-enrollments view\<close>

lemma left_join_students: "fst ` set (left_join ss ds) = set ss"
proof (induction ss)
  case Nil
  show ?case by (simp add: left_join_def)
next
  case (Cons s ss)
  have "fst ` set (case filter (\<lambda>d. s_department_id s = Some (d_id d)) ds of
         [] \<Rightarrow> [(s, None)]
       | ms \<Rightarrow> map (\<lambda>d. (s, Some (d_name d))) ms) = {s}"
    by (cases "filter (\<lambda>d. s_department_id s = Some (d_id d)) ds") (auto simp: image_iff)
  with Cons show ?case by (simp add: left_join_def image_Un)
qed

lemma recent_rows_length: "length (recent_rows st) \<le> 5"
  by (simp add: recent_rows_def)

lemma recent_rows_sorted: "sorted_wrt (\<lambda>a b. s_id (fst b) \<le> s_id (fst a)) (recent_rows st)"
proof -
  let ?k = "\<lambda>row :: student_row \<times> string option. - s_id (fst row)"
  let ?xs = "left_join (students st) (departments st)"
  have "sorted (map ?k (sort_key ?k ?xs))" by (rule sorted_sort_key)
  then have "sorted_wrt (\<lambda>a b. ?k a \<le> ?k b) (sort_key ?k ?xs)" by (simp only: sorted_map)
  then have "sorted_wrt (\<lambda>a b. ?k a \<le> ?k b) (take 5 (sort_key ?k ?xs))"
    by (rule sorted_wrt_take)
  then show ?thesis by (simp add: recent_rows_def)
qed

lemma sort_key_head:
  fixes k :: "'a \<Rightarrow> int"
  assumes "x \<in> set xs"
  shows "sort_key k xs \<noteq> [] \<and> k (hd (sort_key k xs)) \<le> k x"
proof (cases "sort_key k xs")
  case Nil
  then have "set (sort_key k xs) = {}" by simp
  with assms show ?thesis by simp
next
  case (Cons y ys)
  have "sorted (map k (sort_key k xs))" by (rule sorted_sort_key)
  then have "\<forall>z \<in> set ys. k y \<le> k z" by (simp add: Cons)
  moreover have "x \<in> set (y # ys)" using assms Cons set_sort [of k xs] by simp
  ultimately show ?thesis using Cons by auto
qed

lemma recent_rows_newest:
  assumes "s \<in> set (students st)" and "\<forall>t \<in> set (students st). s_id t \<le> s_id s"
  shows "recent_rows st \<noteq> [] \<and> s_id (fst (hd (recent_rows st))) = s_id s"
proof -
  let ?k = "\<lambda>row :: student_row \<times> string option. - s_id (fst row)"
  let ?xs = "left_join (students st) (departments st)"
  from assms(1) obtain row where row: "row \<in> set ?xs" "fst row = s"
    using left_join_students [of "students st" "departments st"] by force
  from sort_key_head [OF row(1), of ?k]
  have ne: "sort_key ?k ?xs \<noteq> []" and le: "s_id s \<le> s_id (fst (hd (sort_key ?k ?xs)))"
    using row(2) by auto
  have "hd (sort_key ?k ?xs) \<in> set ?xs" using ne hd_in_set [OF ne] by simp
  then have "fst (hd (sort_key ?k ?xs)) \<in> set (students st)"
    using left_join_students [of "students st" "departments st"] by force
  with assms(2) le have "s_id (fst (hd (sort_key ?k ?xs))) = s_id s" by force
  with ne show ?thesis by (simp add: recent_rows_def hd_take)
qed

lemma post_api_students_Json200:
  assumes "post_api_students r flt req st = (Json 200 (SavedBody msg new), st')"
  shows "\<exists>row. st' = st\<lparr>students := students st @ [row]\<rparr> \<and> s_id row = new
           \<and> new = next_id (map s_id (students st))
           \<and> s_department_id row = bind (department_id req)"
proof -
  from assms obtain v where
    ins: "insert_student flt v st = Inr (new, st')"
    and v: "v_department_id v = bind (department_id req)"
    by (auto simp: post_api_students_def Let_def split: sum.splits prod.splits)
  from insert_student_Inr [OF ins] v show ?thesis by auto
qed

text \<open>
  C6. The view answers every store; a successful answer has at most 5 rows, and down the rows
  the student id never increases. Ids are handed out in increasing order: a creation that
  succeeds reports an id above every id in the store, and the view then starts with the
  student just created.
\<close>

theorem recent_at_most_five_newest_first:
  "(\<exists>rows. get_api_enrollments_recent None st = Json 200 (DataBody rows))
   \<and> (get_api_enrollments_recent flt st = Json 200 (DataBody rows) \<longrightarrow>
        length rows \<le> 5 \<and> sorted_wrt (\<lambda>a b. s_id (fst b) \<le> s_id (fst a)) rows)
   \<and> (post_api_students r pflt req st = (Json 200 (SavedBody msg new), st') \<longrightarrow>
        (\<forall>s \<in> set (students st). s_id s < new)
        \<and> (\<exists>row rest. get_api_enrollments_recent None st' = Json 200 (DataBody (row # rest))
              \<and> s_id (fst row) = new))"
proof -
  have 1: "\<exists>rows. get_api_enrollments_recent None st = Json 200 (DataBody rows)"
    by (simp add: get_api_enrollments_recent_def)
  have 2: "length rows \<le> 5 \<and> sorted_wrt (\<lambda>a b. s_id (fst b) \<le> s_id (fst a)) rows"
    if "get_api_enrollments_recent flt st = Json 200 (DataBody rows)"
  proof -
    from that have "rows = recent_rows st"
      by (auto simp: get_api_enrollments_recent_def split: option.splits)
    then show ?thesis using recent_rows_length recent_rows_sorted by simp
  qed
  have 3: "(\<forall>s \<in> set (students st). s_id s < new)
        \<and> (\<exists>row rest. get_api_enrollments_recent None st' = Json 200 (DataBody (row # rest))
              \<and> s_id (fst row) = new)"
    if "post_api_students r pflt req st = (Json 200 (SavedBody msg new), st')"
  proof -
    from post_api_students_Json200 [OF that] obtain s where
      s: "students st' = students st @ [s]" "s_id s = new"
         "new = next_id (map s_id (students st))"
      by auto
    have older: "\<forall>t \<in> set (students st). s_id t < new"
      using s(3) next_id_greater [of _ "map s_id (students st)"] by simp
    then have "\<forall>t \<in> set (students st'). s_id t \<le> s_id s" using s(1,2) by auto
    moreover have "s \<in> set (students st')" using s(1) by simp
    ultimately have "recent_rows st' \<noteq> [] \<and> s_id (fst (hd (recent_rows st'))) = new"
      using recent_rows_newest [of s st'] s(2) by simp
    then obtain row rest where "recent_rows st' = row # rest" "s_id (fst row) = new"
      by (cases "recent_rows st'") auto
    then show ?thesis using older by (simp add: get_api_enrollments_recent_def)
  qed
  from 1 2 3 show ?thesis by blast
qed

theorem recent_at_most_five_newest_first_witness:
  "map (s_id \<circ> fst) (recent_rows seeded_store) = [1]
   \<and> get_api_enrollments_recent None seeded_store = Json 200 (DataBody (recent_rows seeded_store))
   \<and> length (recent_rows seeded_store) \<le> 5
   \<and> sorted_wrt (\<lambda>a b. s_id (fst b) \<le> s_id (fst a)) (recent_rows seeded_store)
   \<and> fst (post_api_students (1/2) None (ada_request ''S2'') seeded_store)
       = Json 200 (SavedBody ''Student saved successfully!'' 2)
   \<and> map (s_id \<circ> fst) (recent_rows (enrol seeded_store ''S2'')) = [2, 1]"
proof -
  have a: "get_api_enrollments_recent None seeded_store = Json 200 (DataBody (recent_rows seeded_store))"
    by (simp add: get_api_enrollments_recent_def)
  have b: "map (s_id \<circ> fst) (recent_rows seeded_store) = [1]"
    by (simp add: recent_rows_def left_join_def seeded_store_def)
  have c: "post_api_students (1/2) None (ada_request ''S2'') seeded_store =
     (Json 200 (SavedBody ''Student saved successfully!'' 2), enrol seeded_store ''S2'')"
    by (simp add: enrol_def post_api_students_def ada_request_def seeded_store_def initials_def
        insert_student_def randomColor_def colors_def status_values_def next_id_def lit_def is_high_def is_low_def)
  have d: "map (s_id \<circ> fst) (recent_rows (enrol seeded_store ''S2'')) = [2, 1]"
    by (simp add: recent_rows_def left_join_def enrol_def post_api_students_def ada_request_def
        seeded_store_def initials_def insert_student_def randomColor_def colors_def
        status_values_def next_id_def lit_def is_high_def is_low_def)
  from recent_at_most_five_newest_first [of seeded_store None "recent_rows seeded_store"
      "1/2" None "ada_request ''S2''" "''Student saved successfully!''" 2
      "enrol seeded_store ''S2''"] a b c d
  show ?thesis by simp
qed

lemma in_take_sort_key:
  fixes k :: "'a \<Rightarrow> int"
  assumes "x \<in> set xs" and "length (filter (\<lambda>y. k y \<le> k x) xs) \<le> n"
  shows "x \<in> set (take n (sort_key k xs))"
proof -
  let ?ys = "sort_key k xs"
  let ?P = "\<lambda>y. k y \<le> k x"
  have "x \<in> set ?ys" using assms(1) by simp
  then obtain i where i: "i < length ?ys" "?ys ! i = x"
    by (metis in_set_conv_nth)
  have srt: "sorted (map k ?ys)" by (rule sorted_sort_key)
  have "\<forall>y \<in> set (take (Suc i) ?ys). ?P y"
  proof
    fix y assume "y \<in> set (take (Suc i) ?ys)"
    then obtain j where j: "j < Suc i" "j < length ?ys" "?ys ! j = y"
      by (auto simp: in_set_conv_nth)
    have "map k ?ys ! j \<le> map k ?ys ! i"
      using srt j(1) i(1) by (intro sorted_nth_mono) auto
    then show "?P y" using i j by simp
  qed
  then have "filter ?P (take (Suc i) ?ys) = take (Suc i) ?ys" by (simp add: filter_id_conv)
  then have "length (filter ?P (take (Suc i) ?ys)) = Suc i" using i(1) by simp
  moreover have "length (filter ?P ?ys) =
      length (filter ?P (take (Suc i) ?ys)) + length (filter ?P (drop (Suc i) ?ys))"
    by (metis append_take_drop_id filter_append length_append)
  moreover have "length (filter ?P ?ys) = length (filter ?P xs)"
    by (simp add: filter_sort)
  ultimately have "Suc i \<le> n" using assms(2) by linarith
  then have "?ys ! i \<in> set (take n ?ys)"
    using i(1) by (auto simp: in_set_conv_nth intro!: exI [of _ i])
  then show ?thesis using i(2) by simp
qed

lemma left_join_single:
  assumes "distinct (map d_id ds)"
  shows "map fst (left_join ss ds) = ss"
proof -
  have one: "length (filter (\<lambda>d. k = Some (d_id d)) ds) \<le> 1" for k
    using assms
  proof (induction ds)
    case Nil
    show ?case by simp
  next
    case (Cons d ds)
    show ?case
    proof (cases "k = Some (d_id d)")
      case True
      then have "filter (\<lambda>d. k = Some (d_id d)) ds = []"
        using Cons.prems by (auto simp: filter_empty_conv)
      with True show ?thesis by simp
    next
      case False
      with Cons show ?thesis by simp
    qed
  qed
  show ?thesis
  proof (induction ss)
    case Nil
    show ?case by (simp add: left_join_def)
  next
    case (Cons s ss)
    have "map fst (case filter (\<lambda>d. s_department_id s = Some (d_id d)) ds of
         [] \<Rightarrow> [(s, None)]
       | ms \<Rightarrow> map (\<lambda>d. (s, Some (d_name d))) ms) = [s]"
      using one [of "s_department_id s"]
      by (cases "filter (\<lambda>d. s_department_id s = Some (d_id d)) ds") auto
    with Cons show ?case by (simp add: left_join_def)
  qed
qed

lemma left_join_null:
  assumes "s \<in> set ss" and "s_department_id s = None"
  shows "(s, None) \<in> set (left_join ss ds)"
  using assms by (auto simp: left_join_def intro!: bexI [of _ s])

text \<open>
  C7. A student whose \<^verbatim>\<open>department_id\<close> is NULL is not left out by the join: whatever the
  store, the left join has that student's row, with \<^verbatim>\<open>department_name\<close> NULL. The view is the
  five rows of the join with the highest ids, so it holds that row when the student is among
  the five with the highest ids, that is when at most five students (this one counted) have
  an id at least as high; department ids are distinct, being the table's primary key.
\<close>

theorem recent_null_department:
  assumes "s \<in> set (students st)" and "s_department_id s = None"
  shows "(s, None) \<in> set (left_join (students st) (departments st))
     \<and> (distinct (map d_id (departments st))
          \<and> length (filter (\<lambda>t. s_id s \<le> s_id t) (students st)) \<le> 5
        \<longrightarrow> (\<exists>rows. get_api_enrollments_recent None st = Json 200 (DataBody rows)
               \<and> (s, None) \<in> set rows))"
proof -
  let ?k = "\<lambda>row :: student_row \<times> string option. - s_id (fst row)"
  let ?xs = "left_join (students st) (departments st)"
  have j: "(s, None) \<in> set ?xs" using assms by (rule left_join_null)
  have "(s, None) \<in> set (recent_rows st)"
    if d: "distinct (map d_id (departments st))"
      and n: "length (filter (\<lambda>t. s_id s \<le> s_id t) (students st)) \<le> 5"
  proof -
    have "length (filter (\<lambda>y. ?k y \<le> ?k (s, None)) ?xs)
        = length (filter (\<lambda>t. s_id s \<le> s_id t) (map fst ?xs))"
      by (simp add: filter_map comp_def)
    also have "\<dots> = length (filter (\<lambda>t. s_id s \<le> s_id t) (students st))"
      by (simp add: left_join_single [OF d])
    finally have "length (filter (\<lambda>y. ?k y \<le> ?k (s, None)) ?xs) \<le> 5" using n by simp
    from in_take_sort_key [OF j this] show ?thesis by (simp add: recent_rows_def)
  qed
  with j show ?thesis by (simp add: get_api_enrollments_recent_def)
qed

theorem recent_null_department_witness:
  "s_department_id (students busy_store ! 3) = None
   \<and> s_id (students busy_store ! 3) = 4
   \<and> get_api_enrollments_recent None busy_store = Json 200 (DataBody (recent_rows busy_store))
   \<and> (students busy_store ! 3, None) \<in> set (recent_rows busy_store)"
proof -
  have st: "map s_id (students busy_store) = [1, 2, 3, 4, 5, 6, 7]"
    by (simp add: busy_store_def enrol_def ada_request_def seeded_store_def
        post_api_students_def initials_def insert_student_def randomColor_def colors_def
        status_values_def next_id_def lit_def is_high_def is_low_def)
  have len: "length (students busy_store) = 7"
    using arg_cong [OF st, of length] by simp
  have a: "students busy_store ! 3 \<in> set (students busy_store)"
    using len by simp
  have id4: "s_id (students busy_store ! 3) = 4"
    using arg_cong [OF st, of "\<lambda>xs. xs ! 3"] len by simp
  have b: "s_department_id (students busy_store ! 3) = None"
    by (simp add: busy_store_def enrol_def ada_request_def seeded_store_def
        post_api_students_def initials_def insert_student_def randomColor_def colors_def
        status_values_def next_id_def lit_def is_high_def is_low_def)
  have c: "distinct (map d_id (departments busy_store))"
    by (simp add: busy_store_def enrol_def ada_request_def seeded_store_def
        post_api_students_def initials_def insert_student_def randomColor_def colors_def
        status_values_def next_id_def lit_def is_high_def is_low_def)
  have "length (filter (\<lambda>t. 4 \<le> s_id t) (students busy_store))
      = length (filter (\<lambda>i. 4 \<le> i) (map s_id (students busy_store)))"
    by (simp add: filter_map comp_def)
  then have d: "length (filter (\<lambda>t. s_id (students busy_store ! 3) \<le> s_id t) (students busy_store)) \<le> 5"
    unfolding id4 st by simp
  from recent_null_department [OF a b] c d id4 b
  show ?thesis by (auto simp: get_api_enrollments_recent_def)
qed

section \<open>Properties of the start of the process\<close>

lemma no_faults_first: "set flts \<subseteq> {None} \<Longrightarrow> first_fault (take n flts) = None"
proof (induction flts arbitrary: n)
  case Nil
  show ?case by simp
next
  case (Cons f flts)
  then show ?case by (cases n) auto
qed

lemma no_faults_at: "set flts \<subseteq> {None} \<Longrightarrow> fault_at flts k = None"
  by (auto simp: fault_at_def dest: nth_mem)

lemma seed_data_new:
  assumes "set seeds \<subseteq> {None}" and "departments st = []"
    and "lit ''#ST-2024-001'' \<notin> set (map s_student_id (students st))"
    and "''CS-101'' \<notin> set (map c_course_code (courses st))"
  shows "fst (seed_data seeds st) = []
         \<and> starter_rows_added st (snd (seed_data seeds st))
         \<and> map d_id (departments (snd (seed_data seeds st))) = [1, 2, 3, 4]"
  using assms
  by (simp add: seed_data_def run_statement_def no_faults_at insert_departments_def
      insert_faculty_def insert_student_def insert_course_def seed_student_def
      status_values_def next_id_def starter_rows_added_def Let_def)

lemma server_js_no_seeding:
  assumes "first_fault (take 5 creates) = None" and "departments st \<noteq> [] \<or> cq \<noteq> None"
  shows "server_js None creates cq seeds st =
           \<lparr>alive = True, listening = True,
            console = [''Connected to the SQLite database.''], unhandled = [],
            database = st\<rparr>"
  using assms
  by (cases cq)
    (auto simp: server_js_def open_callback_def initializeDatabase_def db_get_count_def
      app_listen_def start_def)

lemma server_js_seeding:
  assumes "first_fault (take 5 creates) = None" and "departments st = []"
  shows "server_js None creates None seeds st =
           seed seeds \<lparr>alive = True, listening = True,
            console = [''Connected to the SQLite database.''], unhandled = [],
            database = st\<rparr>"
  using assms
  by (simp add: server_js_def open_callback_def initializeDatabase_def db_get_count_def
      app_listen_def start_def)

lemma seed_console:
  "console (seed seeds p) = console p @ [''Seeding Database...'', ''Database seeded successfully.'']"
  by (simp add: seed_def uncaught_def Let_def split: prod.splits)

lemma seed_database: "database (seed seeds p) = snd (seed_data seeds (database p))"
  by (simp add: seed_def uncaught_def Let_def split: prod.splits)

lemma seed_alive: "alive (seed seeds p) \<longleftrightarrow> alive p \<and> fst (seed_data seeds (database p)) = []"
  by (auto simp: seed_def uncaught_def Let_def split: prod.splits)

text \<open>
  C3, as amended. When the schema statements succeed, the seed statements are issued if and
  only if the count query succeeds and finds the departments table empty. On a store whose
  departments table is not empty, and whenever the count query fails, the start leaves the
  store as it is, so every count is the same after a restart. On a store whose departments
  table is empty, counted with success, the seed statements add the starter rows when none
  of them fails, as none does when the seed student's id and the seed course's code are not
  in the store (a new database); the departments then have the ids 1 to 4.
\<close>

theorem seeding_when_departments_empty:
  fixes creates seeds :: "fault list" and cq :: fault and st :: store
  assumes "set creates \<subseteq> {None}"
  defines "p \<equiv> server_js None creates cq seeds st"
  shows "(''Seeding Database...'' \<in> set (console p) \<longleftrightarrow> departments st = [] \<and> cq = None)
    \<and> (departments st \<noteq> [] \<or> cq \<noteq> None \<longrightarrow> database p = st \<and> alive p)
    \<and> (departments st = [] \<and> cq = None \<and> set seeds \<subseteq> {None}
         \<and> lit ''#ST-2024-001'' \<notin> set (map s_student_id (students st))
         \<and> ''CS-101'' \<notin> set (map c_course_code (courses st))
       \<longrightarrow> alive p \<and> starter_rows_added st (database p)
           \<and> map d_id (departments (database p)) = [1, 2, 3, 4])"
proof -
  have cr: "first_fault (take 5 creates) = None" using assms(1) by (rule no_faults_first)
  have keep: "database p = st \<and> alive p \<and> ''Seeding Database...'' \<notin> set (console p)"
    if "departments st \<noteq> [] \<or> cq \<noteq> None"
    unfolding p_def server_js_no_seeding [OF cr that] by simp
  have issue: "''Seeding Database...'' \<in> set (console p)
      \<and> database p = snd (seed_data seeds st)
      \<and> (alive p \<longleftrightarrow> fst (seed_data seeds st) = [])"
    if "departments st = []" "cq = None"
    unfolding p_def that(2) server_js_seeding [OF cr that(1)]
    by (simp add: seed_console seed_database seed_alive)
  have rows: "alive p \<and> starter_rows_added st (database p)
           \<and> map d_id (departments (database p)) = [1, 2, 3, 4]"
    if "departments st = []" "cq = None" "set seeds \<subseteq> {None}"
      "lit ''#ST-2024-001'' \<notin> set (map s_student_id (students st))"
      "''CS-101'' \<notin> set (map c_course_code (courses st))"
    using issue [OF that(1,2)] seed_data_new [OF that(3,1,4,5)] by simp
  show ?thesis using keep issue rows by blast
qed

theorem seeding_when_departments_empty_witness:
  "database (server_js None [] None [] new_store) = seeded_store
   \<and> alive (server_js None [] None [] new_store)
   \<and> starter_rows_added new_store seeded_store
   \<and> departments new_store = []
   \<and> departments seeded_store \<noteq> []
   \<and> database (server_js None [] None [] seeded_store) = seeded_store
   \<and> database (server_js None [] (Some ''SQLITE_BUSY: database is locked'')
        [Some ''SQLITE_IOERR: disk I/O error''] seeded_store) = seeded_store"
proof -
  have e: "set ([] :: fault list) \<subseteq> {None}" by simp
  have n: "departments new_store = []" by (simp add: new_store_def)
  have s: "departments seeded_store \<noteq> []" by (simp add: seeded_store_def)
  have i: "database (server_js None [] None [] new_store) = seeded_store"
    by (simp add: server_js_def open_callback_def initializeDatabase_def app_listen_def
        start_def seed_def uncaught_def db_get_count_def new_store_def seed_data_def
        run_statement_def fault_at_def insert_departments_def insert_faculty_def
        insert_student_def insert_course_def seed_student_def status_values_def next_id_def
        seeded_store_def)
  have r: "starter_rows_added new_store seeded_store"
    by (simp add: starter_rows_added_def new_store_def seeded_store_def)
  have k: "lit ''#ST-2024-001'' \<notin> set (map s_student_id (students new_store))
      \<and> ''CS-101'' \<notin> set (map c_course_code (courses new_store))"
    by (simp add: new_store_def)
  from seeding_when_departments_empty [OF e, where cq = None and st = seeded_store and seeds = "[]"]
    seeding_when_departments_empty [OF e, where cq = "Some ''SQLITE_BUSY: database is locked''"
      and st = seeded_store and seeds = "[Some ''SQLITE_IOERR: disk I/O error'']"]
    seeding_when_departments_empty [OF e, where cq = None and st = new_store and seeds = "[]"]
    n s i r k
  show ?thesis by simp
qed

text \<open>
  C3 as stated fails when the count query fails: the departments table of a new database is
  empty at startup, and no starter row is inserted.
\<close>

theorem seeding_counterexample:
  "departments new_store = []
   \<and> server_js None [] (Some ''SQLITE_BUSY: database is locked'') [] new_store
       = \<lparr>alive = True, listening = True,
          console = [''Connected to the SQLite database.''], unhandled = [],
          database = new_store\<rparr>"
  by (simp add: server_js_def open_callback_def initializeDatabase_def db_get_count_def
      app_listen_def start_def new_store_def)

text \<open>
  The departments table changes at seeding only, where its ids are 1 to 4: the ids of the
  departments stay distinct, as the primary key has them.
\<close>

lemma post_api_students_departments:
  "departments (snd (post_api_students r flt req st)) = departments st"
  by (auto simp: post_api_students_def insert_student_def Let_def
      split: sum.splits option.splits if_splits)

lemma run_statement_departments:
  assumes "\<And>s s'. stmt s = Inr s' \<Longrightarrow> departments s' = departments s"
  shows "departments (snd (run_statement stmt acc)) = departments (snd acc)"
  using assms by (cases "stmt (snd acc)") (simp_all add: run_statement_def)

lemma seed_data_departments:
  assumes "departments st = []"
  shows "map d_id (departments (snd (seed_data seeds st))) = [1, 2, 3, 4]
         \<or> departments (snd (seed_data seeds st)) = []"
proof -
  let ?d = "run_statement (insert_departments (fault_at seeds 0)
        [''Computer Science'', ''Architecture'', ''Engineering'', ''Business'']) ([], st)"
  have f: "departments s' = departments s"
    if "insert_faculty flt vs s = Inr s'" for flt vs s s'
    using that by (cases flt) (auto simp: insert_faculty_def)
  have j: "departments s' = departments s"
    if "map_sum id snd (insert_student flt v s) = Inr s'" for flt v s s'
  proof -
    from that obtain new where "insert_student flt v s = Inr (new, s')"
      by (cases "insert_student flt v s") auto
    from insert_student_Inr [OF this] show ?thesis by auto
  qed
  have c: "departments s' = departments s"
    if "insert_course flt code name dep s = Inr s'" for flt code name dep s s'
    using that by (cases flt) (auto simp: insert_course_def split: if_splits)
  have "departments (snd (seed_data seeds st)) = departments (snd ?d)"
    unfolding seed_data_def
    by (simp add: run_statement_departments [OF c] run_statement_departments [OF j]
        run_statement_departments [OF f])
  moreover have "map d_id (departments (snd ?d)) = [1, 2, 3, 4] \<or> departments (snd ?d) = []"
    using assms
    by (cases "fault_at seeds 0") (simp_all add: run_statement_def insert_departments_def next_id_def)
  ultimately show ?thesis by simp
qed

lemma server_js_database:
  "database (server_js err creates cq seeds st) = st
   \<or> (departments st = [] \<and> database (server_js err creates cq seeds st) = snd (seed_data seeds st))"
proof (cases err)
  case (Some msg)
  then show ?thesis by (simp add: server_js_def open_callback_def app_listen_def start_def)
next
  case None
  show ?thesis
  proof (cases "first_fault (take 5 creates)")
    case (Some e)
    with None show ?thesis
      by (simp add: server_js_def open_callback_def initializeDatabase_def uncaught_def
          app_listen_def start_def)
  next
    case cr: None
    show ?thesis
    proof (cases "departments st \<noteq> [] \<or> cq \<noteq> None")
      case True
      with None show ?thesis by (simp add: server_js_no_seeding [OF cr])
    next
      case False
      then have "departments st = []" "cq = None" by simp_all
      with None show ?thesis by (simp add: server_js_seeding [OF cr] seed_database)
    qed
  qed
qed

lemma server_js_department_ids:
  assumes "distinct (map d_id (departments st))"
  shows "distinct (map d_id (departments (database (server_js err creates cq seeds st))))"
  using server_js_database [of err creates cq seeds st] seed_data_departments [of st seeds] assms
  by auto

text \<open>
  C9. When one of the \<^verbatim>\<open>CREATE TABLE\<close> statements fails, the start ends with the process
  not running: no request gets an answer from it, the seed statements have not been issued,
  and the store is as it was. The error that ended it is that of the first statement that
  failed.
\<close>

theorem schema_failure_fatal:
  fixes creates seeds :: "fault list" and cq :: fault and st :: store
  assumes "first_fault (take 5 creates) = Some e"
  defines "p \<equiv> server_js None creates cq seeds st"
  shows "\<not> alive p \<and> \<not> answers p \<and> unhandled p = [e]
         \<and> ''Seeding Database...'' \<notin> set (console p) \<and> database p = st"
  using assms(1) unfolding p_def
  by (simp add: server_js_def open_callback_def initializeDatabase_def uncaught_def
      app_listen_def start_def answers_def)

theorem schema_failure_fatal_witness:
  "first_fault (take 5 [None, None, Some ''SQLITE_READONLY: attempt to write a readonly database''])
     = Some ''SQLITE_READONLY: attempt to write a readonly database''
   \<and> server_js None [None, None, Some ''SQLITE_READONLY: attempt to write a readonly database'']
        None [] new_store
     = \<lparr>alive = False, listening = False,
        console = [''Connected to the SQLite database.''],
        unhandled = [''SQLITE_READONLY: attempt to write a readonly database''],
        database = new_store\<rparr>"
proof -
  have f: "first_fault (take 5 [None, None, Some ''SQLITE_READONLY: attempt to write a readonly database''])
     = Some ''SQLITE_READONLY: attempt to write a readonly database''"
    by simp
  have c: "console (server_js None [None, None, Some ''SQLITE_READONLY: attempt to write a readonly database'']
        None [] new_store) = [''Connected to the SQLite database.'']"
    and l: "\<not> listening (server_js None [None, None, Some ''SQLITE_READONLY: attempt to write a readonly database'']
        None [] new_store)"
    by (simp_all add: server_js_def open_callback_def initializeDatabase_def uncaught_def
        app_listen_def start_def)
  from schema_failure_fatal [OF f, where cq = None and seeds = "[]" and st = new_store] f c l
  show ?thesis by (simp add: process.equality)
qed

text \<open>
  A failure to open the store is another matter: the callback writes it to the console and
  does no more, so that the process runs on and its server answers, with no table made.
\<close>

lemma open_failure_logged:
  "server_js (Some msg) creates cq seeds st =
     \<lparr>alive = True, listening = True, console = [''Error opening database '' @ msg],
      unhandled = [], database = st\<rparr>"
  by (simp add: server_js_def open_callback_def app_listen_def start_def)

end
